theory Spec2Isabelle
  imports Complex_Main "HOL-Library.Sublist"
begin

section \<open>Python values used by the client\<close>

text \<open>
  The decoded form of a JSON document, as \<^verbatim>\<open>resp.json()\<close> returns it. Python's
  \<^verbatim>\<open>None\<close> is \<open>JNull\<close>; a dict is an association list read with \<open>map_of\<close>;
  numbers are kept by their value (the parser's \<^verbatim>\<open>NaN\<close> and \<^verbatim>\<open>Infinity\<close> are not
  represented). Strings are \<open>string\<close>: characters beyond Latin-1 are not represented.
\<close>

datatype json =
    JNull
  | JBool bool
  | JNum rat
  | JStr string
  | JArr "json list"
  | JObj "(string \<times> json) list"

text \<open>Python truth value testing, as used by \<^verbatim>\<open>or\<close>.\<close>

fun truthy :: "json \<Rightarrow> bool" where
  "truthy JNull = False"
| "truthy (JBool b) = b"
| "truthy (JNum r) = (r \<noteq> 0)"
| "truthy (JStr s) = (s \<noteq> [])"
| "truthy (JArr xs) = (xs \<noteq> [])"
| "truthy (JObj kv) = (kv \<noteq> [])"

text \<open>\<^verbatim>\<open>a or b\<close>: the first operand if it is truthy, otherwise the second.\<close>

definition py_or :: "json \<Rightarrow> json \<Rightarrow> json" where
  "py_or a b = (if truthy a then a else b)"

text \<open>\<^verbatim>\<open>data.get(key)\<close> on a dict: the value, or \<^verbatim>\<open>None\<close> when the key is absent.\<close>

definition dict_get :: "(string \<times> json) list \<Rightarrow> string \<Rightarrow> json" where
  "dict_get kv k = (case map_of kv k of None \<Rightarrow> JNull | Some v \<Rightarrow> v)"

text \<open>
  \<^verbatim>\<open>str.upper()\<close> on the letters \<open>a\<close> to \<open>z\<close>; every other character is left as it
  is. The general theorems below use of \<open>upper\<close> at most that it is idempotent.
\<close>

definition upper_char :: "char \<Rightarrow> char" where
  "upper_char c =
     (case map_of (zip ''abcdefghijklmnopqrstuvwxyz'' ''ABCDEFGHIJKLMNOPQRSTUVWXYZ'') c of
        None \<Rightarrow> c
      | Some u \<Rightarrow> u)"

definition upper :: "string \<Rightarrow> string" where
  "upper s = map upper_char s"

section \<open>Responses and errors (client.py)\<close>

text \<open>
  What \<^verbatim>\<open>_handle\<close> reads of an \<^verbatim>\<open>httpx.Response\<close>: \<^verbatim>\<open>resp.status_code\<close>, the
  \<^verbatim>\<open>content-type\<close> header (\<open>None\<close> when the header is absent), \<^verbatim>\<open>resp.text\<close>,
  \<^verbatim>\<open>resp.content\<close> and the result of \<^verbatim>\<open>resp.json()\<close> (\<open>None\<close> when decoding raises).
\<close>

record response =
  status_code :: int
  content_type :: "string option"
  resp_text :: string
  resp_content :: string
  resp_json :: "json option"

text \<open>
  \<^verbatim>\<open>ApiError(status_code, message, response=None)\<close> keeps its constructor arguments
  (the exception text is \<^verbatim>\<open>f"HTTP {status_code}: {message}"\<close>); the message is whatever
  Python value the caller passes. \<open>TimeoutError\<close> is Python's builtin, with its message.
  \<open>JSONDecodeError\<close> is what \<^verbatim>\<open>resp.json()\<close> raises; \<open>OtherError\<close> stands for any other
  exception (transport failures, validation errors).
\<close>

datatype error =
    ApiError int json "response option"
  | TimeoutError string
  | JSONDecodeError
  | OtherError string

datatype decoded = Json json | Bytes string

definition handle :: "response \<Rightarrow> error + decoded" where
  "handle resp =
     (if status_code resp \<ge> 400 then
        (let msg = (case resp_json resp of
                      Some (JObj data) \<Rightarrow>
                        py_or (py_or (dict_get data ''message'') (dict_get data ''error''))
                              (JStr (resp_text resp))
                    | _ \<Rightarrow> JStr (resp_text resp))
         in Inl (ApiError (status_code resp) msg (Some resp)))
      else
        (let ctype = (case content_type resp of None \<Rightarrow> [] | Some c \<Rightarrow> c)
         in if sublist ''application/json'' ctype then
              (case resp_json resp of None \<Rightarrow> Inl JSONDecodeError | Some j \<Rightarrow> Inr (Json j))
            else Inr (Bytes (resp_content resp))))"

section \<open>Typed fetch operations (client.py)\<close>

text \<open>
  The client holds the API key, the bearer token and the base URL; \<open>http_get\<close> is the
  \<^verbatim>\<open>httpx.Client.get\<close> it calls, which returns a response or raises.
\<close>

record client =
  api_key :: "string option"
  bearer :: "string option"
  base_url :: string
  http_get :: "string \<Rightarrow> (string \<rightharpoonup> string) \<Rightarrow> error + response"

definition headers :: "client \<Rightarrow> (string \<rightharpoonup> string) option \<Rightarrow> (string \<rightharpoonup> string)" where
  "headers c extra =
     (let h0 = Map.empty;
          h1 = (case api_key c of
                  None \<Rightarrow> h0
                | Some k \<Rightarrow> if k \<noteq> [] then h0(''X-API-KEY'' \<mapsto> k) else h0);
          h2 = (case bearer c of
                  None \<Rightarrow> h1
                | Some b \<Rightarrow> if b \<noteq> [] then h1(''Authorization'' \<mapsto> ''Bearer '' @ b) else h1)
      in case extra of None \<Rightarrow> h2 | Some e \<Rightarrow> h2 ++ e)"

text \<open>The two messages of the binary-response errors (character \<open>0xE9\<close> is e acute).\<close>

definition binary_report_message :: string where
  "binary_report_message = ''R'' @ [CHR 0xE9] @ ''ponse binaire inattendue pour un rapport JSON''"

definition binary_job_message :: string where
  "binary_job_message = ''R'' @ [CHR 0xE9] @ ''ponse binaire inattendue pour un job JSON''"

text \<open>
  \<^verbatim>\<open>ValidationReport.model_validate\<close> and \<^verbatim>\<open>Job.model_validate\<close> are pydantic's; the
  operations take them as the parameter \<open>model_validate\<close>, applied to a decoded JSON value.
\<close>

definition get_validation_report ::
  "client \<Rightarrow> (json \<Rightarrow> error + 'r) \<Rightarrow> string \<Rightarrow> error + 'r" where
  "get_validation_report c model_validate validation_id =
     (let url = base_url c @ ''/v1/validations/'' @ validation_id @ ''/report'' in
      case http_get c url (headers c None) of
        Inl e \<Rightarrow> Inl e
      | Inr resp \<Rightarrow>
          (case handle resp of
             Inl e \<Rightarrow> Inl e
           | Inr (Bytes b) \<Rightarrow> Inl (ApiError 500 (JStr binary_report_message) None)
           | Inr (Json data) \<Rightarrow> model_validate data))"

definition get_transformation ::
  "client \<Rightarrow> (json \<Rightarrow> error + 'j) \<Rightarrow> string \<Rightarrow> error + 'j" where
  "get_transformation c model_validate job_id =
     (let url = base_url c @ ''/api/v1/transformations/'' @ job_id in
      case http_get c url (headers c None) of
        Inl e \<Rightarrow> Inl e
      | Inr resp \<Rightarrow>
          (case handle resp of
             Inl e \<Rightarrow> Inl e
           | Inr (Bytes b) \<Rightarrow> Inl (ApiError 500 (JStr binary_job_message) None)
           | Inr (Json data) \<Rightarrow> model_validate data))"

definition get_generation ::
  "client \<Rightarrow> (json \<Rightarrow> error + 'j) \<Rightarrow> string \<Rightarrow> error + 'j" where
  "get_generation c model_validate job_id =
     (let url = base_url c @ ''/api/v1/generations/'' @ job_id in
      case http_get c url (headers c None) of
        Inl e \<Rightarrow> Inl e
      | Inr resp \<Rightarrow>
          (case handle resp of
             Inl e \<Rightarrow> Inl e
           | Inr (Bytes b) \<Rightarrow> Inl (ApiError 500 (JStr binary_job_message) None)
           | Inr (Json data) \<Rightarrow> model_validate data))"

section \<open>The job poller (client.py, wait\_for\_job)\<close>

text \<open>The \<^verbatim>\<open>Job\<close> model of models.py.\<close>

record job =
  id' :: string
  status :: string
  downloadUrl :: "string option"
  reportDownloadUrl :: "string option"

text \<open>
  The keyword parameters of \<^verbatim>\<open>wait_for_job\<close>. Numbers have an arbitrary type \<open>'t\<close>
  with \<open>+\<close>, \<open>*\<close> and \<open>>\<close> and no law assumed of them, so that what is proved of the
  control flow does not depend on exact arithmetic. \<^verbatim>\<open>failed_statuses\<close> is an iterable
  that every iteration of the loop traverses again (a tuple, a list, a set), kept as a list.
\<close>

record 't poll_config =
  interval_seconds :: 't
  max_wait_seconds :: 't
  backoff_factor :: 't
  completed_status :: string
  failed_statuses :: "string list"

text \<open>
  The environment of one call. \<open>fetch_script\<close> holds what the successive calls of
  \<^verbatim>\<open>fetch_fn\<close> will return (a job) or raise (an error); \<open>clock_script\<close> holds the
  successive readings of \<^verbatim>\<open>time.time()\<close>, with no assumption made of them;
  \<open>fetch_calls\<close> logs the argument of every call of \<^verbatim>\<open>fetch_fn\<close> and \<open>sleeps\<close> the
  argument of every \<^verbatim>\<open>time.sleep\<close>, both in order. A script that runs out ends the
  run with \<open>None\<close>.
\<close>

record 't world =
  fetch_script :: "(error + job) list"
  clock_script :: "'t list"
  fetch_calls :: "string list"
  sleeps :: "'t list"

definition fetch_fn :: "string \<Rightarrow> 't world \<Rightarrow> ((error + job) \<times> 't world) option" where
  "fetch_fn job_id w =
     (case fetch_script w of
        [] \<Rightarrow> None
      | r # rs \<Rightarrow> Some (r, w\<lparr>fetch_script := rs, fetch_calls := fetch_calls w @ [job_id]\<rparr>))"

definition time_time :: "'t world \<Rightarrow> ('t \<times> 't world) option" where
  "time_time w =
     (case clock_script w of
        [] \<Rightarrow> None
      | t # ts \<Rightarrow> Some (t, w\<lparr>clock_script := ts\<rparr>))"

definition time_sleep :: "'t \<Rightarrow> 't world \<Rightarrow> 't world" where
  "time_sleep d w = w\<lparr>sleeps := sleeps w @ [d]\<rparr>"

text \<open>
  The two messages of the poller; \<open>fmt\<close> is Python's formatting of the number
  \<^verbatim>\<open>max_wait_seconds\<close> inside the f-string (character \<open>0xE9\<close> is e acute, \<open>0xE8\<close> is
  e grave).
\<close>

definition job_failed_message :: "string \<Rightarrow> job \<Rightarrow> string" where
  "job_failed_message job_id j =
     ''Job '' @ job_id @ '' en '' @ [CHR 0xE9] @ ''chec: '' @ status j"

definition timeout_message :: "('t \<Rightarrow> string) \<Rightarrow> 't \<Rightarrow> string \<Rightarrow> string" where
  "timeout_message fmt max_wait job_id =
     ''Timeout apr'' @ [CHR 0xE8] @ ''s '' @ fmt max_wait @ ''s en attendant le job '' @ job_id"

text \<open>The two status tests of the loop body, as the source writes them.\<close>

definition is_completed :: "'t poll_config \<Rightarrow> job \<Rightarrow> bool" where
  "is_completed cfg j = (upper (status j) = completed_status cfg)"

definition is_failed :: "'t poll_config \<Rightarrow> job \<Rightarrow> bool" where
  "is_failed cfg j = (upper (status j) \<in> set (map upper (failed_statuses cfg)))"

text \<open>The \<^verbatim>\<open>while True\<close> loop, with \<open>deadline\<close> and the current \<open>delay\<close>.\<close>

function loop ::
  "('t::{plus,times,ord} \<Rightarrow> string) \<Rightarrow> 't poll_config \<Rightarrow> string \<Rightarrow> 't \<Rightarrow> 't \<Rightarrow> 't world
     \<Rightarrow> ((error + job) \<times> 't world) option" where
  "loop fmt cfg job_id deadline delay w =
     (case fetch_fn job_id w of
        None \<Rightarrow> None
      | Some (r, w1) \<Rightarrow>
          (case r of
             Inl e \<Rightarrow> Some (Inl e, w1)
           | Inr j \<Rightarrow>
               if is_completed cfg j then Some (Inr j, w1)
               else if is_failed cfg j then
                 Some (Inl (ApiError 500 (JStr (job_failed_message job_id j)) None), w1)
               else
                 (case time_time w1 of
                    None \<Rightarrow> None
                  | Some (now, w2) \<Rightarrow>
                      if now + delay > deadline then
                        Some (Inl (TimeoutError
                                (timeout_message fmt (max_wait_seconds cfg) job_id)), w2)
                      else
                        loop fmt cfg job_id deadline (delay * backoff_factor cfg)
                          (time_sleep delay w2))))"
  by pat_completeness auto
termination
  by (relation "measure (\<lambda>(fmt, cfg, job_id, deadline, delay, w). length (fetch_script w))")
     (auto simp: fetch_fn_def time_time_def time_sleep_def split: list.splits)

declare loop.simps [simp del]

definition wait_for_job ::
  "('t::{plus,times,ord} \<Rightarrow> string) \<Rightarrow> 't poll_config \<Rightarrow> string \<Rightarrow> 't world
     \<Rightarrow> ((error + job) \<times> 't world) option" where
  "wait_for_job fmt cfg job_id w =
     (case time_time w of
        None \<Rightarrow> None
      | Some (now, w0) \<Rightarrow>
          loop fmt cfg job_id (now + max_wait_seconds cfg) (interval_seconds cfg) w0)"

section \<open>Runs of the poller\<close>




text \<open>The default keyword arguments of \<^verbatim>\<open>wait_for_job\<close>, and \<^verbatim>\<open>Job(id=i, status=s)\<close>.\<close>

definition default_config :: "rat poll_config" where
  "default_config =
     \<lparr>interval_seconds = 1, max_wait_seconds = 60, backoff_factor = 1.5,
      completed_status = ''COMPLETED'', failed_statuses = [''FAILED'', ''CANCELED'']\<rparr>"

definition Job :: "string \<Rightarrow> string \<Rightarrow> job" where
  "Job i s = \<lparr>id' = i, status = s, downloadUrl = None, reportDownloadUrl = None\<rparr>"

text \<open>
  The responses and the client of the examples below. \<open>dq\<close> is the double quote. The
  first response is a 404 whose body is the JSON object with the one field \<open>message\<close>, of
  value \<open>not found\<close>; the second a 500 with an HTML content type and a body that is not
  JSON; the third a 400 whose field \<open>message\<close> is the empty string; the fourth a 200 that
  carries a PDF, returned by \<open>pdf_client\<close> for every URL.
\<close>

definition dq :: string where
  "dq = [CHR 0x22]"

definition not_found_response :: response where
  "not_found_response =
     \<lparr>status_code = 404, content_type = Some ''application/json'',
      resp_text = ''{'' @ dq @ ''message'' @ dq @ '': '' @ dq @ ''not found'' @ dq @ ''}'',
      resp_content = ''{'' @ dq @ ''message'' @ dq @ '': '' @ dq @ ''not found'' @ dq @ ''}'',
      resp_json = Some (JObj [(''message'', JStr ''not found'')])\<rparr>"

definition server_error_response :: response where
  "server_error_response =
     \<lparr>status_code = 500, content_type = Some ''text/html'',
      resp_text = ''Internal Server Error'', resp_content = ''Internal Server Error'',
      resp_json = None\<rparr>"

definition empty_message_response :: response where
  "empty_message_response =
     \<lparr>status_code = 400, content_type = Some ''application/json'',
      resp_text = ''{'' @ dq @ ''message'' @ dq @ '': '' @ dq @ dq @ ''}'',
      resp_content = ''{'' @ dq @ ''message'' @ dq @ '': '' @ dq @ dq @ ''}'',
      resp_json = Some (JObj [(''message'', JStr '''')])\<rparr>"

definition bad_request_response :: response where
  "bad_request_response =
     \<lparr>status_code = 400, content_type = Some ''application/json'',
      resp_text = ''{'' @ dq @ ''error'' @ dq @ '': '' @ dq @ ''bad request'' @ dq @ ''}'',
      resp_content = ''{'' @ dq @ ''error'' @ dq @ '': '' @ dq @ ''bad request'' @ dq @ ''}'',
      resp_json = Some (JObj [(''error'', JStr ''bad request'')])\<rparr>"

definition pdf_response :: response where
  "pdf_response =
     \<lparr>status_code = 200, content_type = Some ''application/pdf'',
      resp_text = ''%PDF-1.4 test'', resp_content = ''%PDF-1.4 test'', resp_json = None\<rparr>"

definition pdf_client :: client where
  "pdf_client =
     \<lparr>api_key = Some ''KEY123'', bearer = None, base_url = ''https://api.invoiceiq.fr'',
      http_get = (\<lambda>url hdrs. Inr pdf_response)\<rparr>"

section \<open>One iteration of the loop\<close>









section \<open>Runs through a prefix of pending jobs\<close>







text \<open>A successful response whose content type does not contain the JSON media type is bytes.\<close>

lemma handle_bytes:
  assumes "status_code resp < 400"
    and "\<not> sublist ''application/json'' (case content_type resp of None \<Rightarrow> [] | Some ct \<Rightarrow> ct)"
  shows "handle resp = Inr (Bytes (resp_content resp))"
  using assms by (simp add: handle_def)

section \<open>The claims about the poller\<close>

subsection \<open>Completed status in lower case\<close>

text \<open>
  Claim C1 says that a job whose status equals the configured completed status up to case
  is returned on the first fetch that reports it, with no further fetch and no sleep. The
  loop upper-cases the job's status only, not the configured one. With
  \<^verbatim>\<open>completed_status="completed"\<close> and a job that reports \<^verbatim>\<open>completed\<close>, the two
  strings agree up to case (they are even equal), and yet the first fetch does not end the
  run: the poller sleeps one second, fetches a second time, and with a clock that then
  reads 100 it raises the timeout error.
\<close>

theorem wait_for_job_lowercase_completed_status:
  "upper (status (Job ''job-42'' ''completed'')) =
     upper (completed_status (default_config\<lparr>completed_status := ''completed''\<rparr>)) \<and>
   wait_for_job (\<lambda>_. ''60'') (default_config\<lparr>completed_status := ''completed''\<rparr>) ''job-42''
     \<lparr>fetch_script = [Inr (Job ''job-42'' ''completed''), Inr (Job ''job-42'' ''completed'')],
      clock_script = [0, 0, 100], fetch_calls = [], sleeps = []\<rparr> =
   Some (Inl (TimeoutError (''Timeout apr'' @ [CHR 0xE8] @ ''s 60s en attendant le job job-42'')),
     \<lparr>fetch_script = [], clock_script = [], fetch_calls = [''job-42'', ''job-42''],
      sleeps = [1]\<rparr>)"
  by (simp add: default_config_def Job_def upper_def upper_char_def wait_for_job_def
        time_time_def time_sleep_def loop.simps fetch_fn_def is_completed_def is_failed_def
        timeout_message_def)

subsection \<open>Failed statuses\<close>




subsection \<open>Timeout\<close>



subsection \<open>Completed status that is also a failed status\<close>

text \<open>
  Claim C4 says that when the configured completed status equals a member of the failed
  statuses up to case, a job that reports that status is returned. With
  \<^verbatim>\<open>completed_status="Done"\<close> and \<^verbatim>\<open>failed_statuses=("done",)\<close> the two agree up to case;
  for a job that reports \<^verbatim>\<open>Done\<close> the completed test compares \<^verbatim>\<open>DONE\<close> with \<^verbatim>\<open>Done\<close>
  and fails, the failed test compares \<^verbatim>\<open>DONE\<close> with \<^verbatim>\<open>DONE\<close>, and the poller raises the
  job-failed error.
\<close>

theorem wait_for_job_coinciding_statuses:
  "upper (completed_status (default_config\<lparr>completed_status := ''Done'',
       failed_statuses := [''done'']\<rparr>)) = upper ''done'' \<and>
   wait_for_job (\<lambda>_. ''60'')
     (default_config\<lparr>completed_status := ''Done'', failed_statuses := [''done'']\<rparr>) ''job-42''
     \<lparr>fetch_script = [Inr (Job ''job-42'' ''Done'')], clock_script = [0],
      fetch_calls = [], sleeps = []\<rparr> =
   Some (Inl (ApiError 500 (JStr (''Job job-42 en '' @ [CHR 0xE9] @ ''chec: Done'')) None),
     \<lparr>fetch_script = [], clock_script = [], fetch_calls = [''job-42''], sleeps = []\<rparr>)"
  by (simp add: default_config_def Job_def upper_def upper_char_def wait_for_job_def
        time_time_def loop.simps fetch_fn_def is_completed_def is_failed_def
        job_failed_message_def)

subsection \<open>Backoff and number of fetches\<close>



subsection \<open>Errors of the fetch operation\<close>



subsection \<open>Status code of the job-failed error\<close>



section \<open>The claims about response handling\<close>

subsection \<open>Error responses\<close>

text \<open>
  Claim C7, amended. For every response with status 400 or more, \<open>handle\<close> raises an
  \<open>ApiError\<close> that carries that status code and the response itself. Its message is the
  value of the field \<open>message\<close> of the decoded JSON object when that field is present and
  truthy (not null, false, zero, or an empty string, list or object); otherwise the value of
  the field \<open>error\<close> when that one is present and truthy; and the raw response text when
  neither field is present and truthy, which includes a body that is not JSON or not a JSON
  object. The witness holds the two examples of the claim, the 404 response whose body is
  the object with \<open>message\<close> equal to \<open>not found\<close> and the 500 response with a body that is
  not JSON, and a 400 response with the field \<open>error\<close> only.
\<close>

theorem handle_error_response:
  assumes "status_code resp \<ge> 400"
  shows "\<exists>msg. handle resp = Inl (ApiError (status_code resp) msg (Some resp)) \<and>
     (\<forall>data v. resp_json resp = Some (JObj data) \<and> map_of data ''message'' = Some v \<and>
        truthy v \<longrightarrow> msg = v) \<and>
     (\<forall>data v. resp_json resp = Some (JObj data) \<and> \<not> truthy (dict_get data ''message'') \<and>
        map_of data ''error'' = Some v \<and> truthy v \<longrightarrow> msg = v) \<and>
     ((\<forall>data. resp_json resp = Some (JObj data) \<longrightarrow>
         \<not> truthy (dict_get data ''message'') \<and> \<not> truthy (dict_get data ''error'')) \<longrightarrow>
      msg = JStr (resp_text resp))"
proof (cases "resp_json resp")
  case None
  with assms show ?thesis by (simp add: handle_def)
next
  case (Some body)
  show ?thesis
  proof (cases body)
    case (JObj data)
    with Some assms show ?thesis
      by (simp add: handle_def py_or_def dict_get_def)
  qed (use Some assms in \<open>simp_all add: handle_def\<close>)
qed

theorem handle_error_response_witness:
  "status_code not_found_response \<ge> 400 \<and> status_code bad_request_response \<ge> 400 \<and>
   status_code server_error_response \<ge> 400 \<and>
   handle not_found_response = Inl (ApiError 404 (JStr ''not found'') (Some not_found_response)) \<and>
   handle bad_request_response =
     Inl (ApiError 400 (JStr ''bad request'') (Some bad_request_response)) \<and>
   handle server_error_response =
     Inl (ApiError 500 (JStr (resp_text server_error_response)) (Some server_error_response))"
proof -
  have a: "status_code not_found_response \<ge> 400"
    by (simp add: not_found_response_def)
  have b: "status_code bad_request_response \<ge> 400"
    by (simp add: bad_request_response_def)
  have c: "status_code server_error_response \<ge> 400"
    by (simp add: server_error_response_def)
  have "handle not_found_response = Inl (ApiError 404 (JStr ''not found'') (Some not_found_response))"
    using handle_error_response [OF a]
    by (auto simp: not_found_response_def)
  moreover have "handle bad_request_response =
     Inl (ApiError 400 (JStr ''bad request'') (Some bad_request_response))"
    using handle_error_response [OF b]
    by (auto simp: bad_request_response_def dict_get_def)
  moreover have "handle server_error_response =
     Inl (ApiError 500 (JStr (resp_text server_error_response)) (Some server_error_response))"
    using handle_error_response [OF c]
    by (auto simp: server_error_response_def)
  ultimately show ?thesis using a b c by simp
qed

text \<open>
  Claim C7 as it was stated fails on a field that is present and empty: for the 400
  response whose body is the object with \<open>message\<close> equal to the empty string, the field is
  present, and the message of the error is the raw response text, not the empty string.
\<close>

theorem handle_error_response_counterexample:
  "status_code empty_message_response \<ge> 400 \<and>
   resp_json empty_message_response = Some (JObj [(''message'', JStr '''')]) \<and>
   map_of [(''message'', JStr '''')] ''message'' = Some (JStr '''') \<and>
   handle empty_message_response =
     Inl (ApiError 400 (JStr (resp_text empty_message_response)) (Some empty_message_response)) \<and>
   JStr (resp_text empty_message_response) \<noteq> JStr ''''"
  by (simp add: empty_message_response_def handle_def py_or_def dict_get_def dq_def)

subsection \<open>Binary body where JSON was expected\<close>

text \<open>
  Claim C8. For each of the three typed fetch operations: when the transport returns a
  response with status below 400 whose content type does not contain
  \<^verbatim>\<open>application/json\<close> (so that \<open>handle\<close> returns the raw bytes), the operation raises the
  dedicated \<open>ApiError\<close> with status code 500, whatever the parse function of the typed
  record is: the parse is applied to a decoded JSON value only, and is not reached here.
\<close>

theorem typed_fetch_binary_response:
  assumes "status_code resp < 400"
    and "\<not> sublist ''application/json'' (case content_type resp of None \<Rightarrow> [] | Some ct \<Rightarrow> ct)"
  shows "(http_get c (base_url c @ ''/v1/validations/'' @ i @ ''/report'') (headers c None) = Inr resp
            \<longrightarrow> get_validation_report c validate_report i =
                  Inl (ApiError 500 (JStr binary_report_message) None)) \<and>
         (http_get c (base_url c @ ''/api/v1/transformations/'' @ i) (headers c None) = Inr resp
            \<longrightarrow> get_transformation c validate_job i =
                  Inl (ApiError 500 (JStr binary_job_message) None)) \<and>
         (http_get c (base_url c @ ''/api/v1/generations/'' @ i) (headers c None) = Inr resp
            \<longrightarrow> get_generation c validate_job i =
                  Inl (ApiError 500 (JStr binary_job_message) None))"
  using handle_bytes [OF assms]
  by (simp add: get_validation_report_def get_transformation_def get_generation_def)

theorem typed_fetch_binary_response_witness:
  "status_code pdf_response < 400 \<and>
   \<not> sublist ''application/json'' (case content_type pdf_response of None \<Rightarrow> [] | Some ct \<Rightarrow> ct) \<and>
   http_get pdf_client (base_url pdf_client @ ''/v1/validations/'' @ ''val-1'' @ ''/report'')
     (headers pdf_client None) = Inr pdf_response \<and>
   http_get pdf_client (base_url pdf_client @ ''/api/v1/transformations/'' @ ''job-1'')
     (headers pdf_client None) = Inr pdf_response \<and>
   http_get pdf_client (base_url pdf_client @ ''/api/v1/generations/'' @ ''job-1'')
     (headers pdf_client None) = Inr pdf_response \<and>
   get_validation_report pdf_client (\<lambda>data. Inr data) ''val-1'' =
     Inl (ApiError 500 (JStr binary_report_message) None) \<and>
   get_transformation pdf_client (\<lambda>data. Inr data) ''job-1'' =
     Inl (ApiError 500 (JStr binary_job_message) None) \<and>
   get_generation pdf_client (\<lambda>data. Inr data) ''job-1'' =
     Inl (ApiError 500 (JStr binary_job_message) None)"
proof -
  have s: "status_code pdf_response < 400"
    by (simp add: pdf_response_def)
  have n: "\<not> sublist ''application/json''
             (case content_type pdf_response of None \<Rightarrow> [] | Some ct \<Rightarrow> ct)"
    unfolding pdf_response_def by code_simp
  have g: "http_get pdf_client url hdrs = Inr pdf_response" for url hdrs
    by (simp add: pdf_client_def)
  show ?thesis
    using s n g
      typed_fetch_binary_response [OF s n, of pdf_client "''val-1''" "\<lambda>data. Inr data"
        "\<lambda>data. Inr data"]
      typed_fetch_binary_response [OF s n, of pdf_client "''job-1''" "\<lambda>data. Inr data"
        "\<lambda>data. Inr data"]
    by simp
qed

end
